theory Spec2Isabelle
  imports Complex_Main "HOL-Library.AList"
begin

section \<open>JavaScript values\<close>

text \<open>
  The plugin \<^verbatim>\<open>multichain.node.js\<close> handles untyped JavaScript values: configuration
  objects, parsed JSON-RPC bodies, \<^verbatim>\<open>undefined\<close> and \<^verbatim>\<open>null\<close>. They are modelled by
  one datatype. A number is an IEEE-754 double: a finite one is the rational it denotes
  (\<open>JNum\<close>; the two zeros are not told apart), the others are \<^verbatim>\<open>Infinity\<close>,
  \<^verbatim>\<open>-Infinity\<close> and \<^verbatim>\<open>NaN\<close>. An object is the association list of its own properties,
  in insertion order; the first binding of a key is the property's value. A string is the
  list of its bytes in UTF-8.
\<close>

datatype jsval =
    JUndefined
  | JNull
  | JBool bool
  | JNum rat
  | JInf
  | JNegInf
  | JNaN
  | JStr string
  | JArr "jsval list"
  | JObj "(string \<times> jsval) list"

datatype error = TypeError | RangeError

text \<open>
  The functions of the JavaScript runtime that the plugin calls and that are not modelled
  here are parameters: \<^verbatim>\<open>JSON.parse\<close> (\<open>Inl\<close> is the thrown error), \<^verbatim>\<open>JSON.stringify\<close>
  on a value other than \<^verbatim>\<open>undefined\<close>, the conversion of a string to a number and of a
  finite number to a string.
\<close>

record runtime =
  JSON_parse :: "string \<Rightarrow> jsval + jsval"
  JSON_stringify :: "jsval \<Rightarrow> string"
  StringToNumber :: "string \<Rightarrow> jsval"
  NumberToString :: "rat \<Rightarrow> string"

text \<open>\<^verbatim>\<open>typeof v\<close>.\<close>

fun js_typeof :: "jsval \<Rightarrow> string" where
  "js_typeof JUndefined = ''undefined''"
| "js_typeof JNull = ''object''"
| "js_typeof (JBool b) = ''boolean''"
| "js_typeof (JNum n) = ''number''"
| "js_typeof JInf = ''number''"
| "js_typeof JNegInf = ''number''"
| "js_typeof JNaN = ''number''"
| "js_typeof (JStr s) = ''string''"
| "js_typeof (JArr xs) = ''object''"
| "js_typeof (JObj kvs) = ''object''"

text \<open>The truth value of \<open>v\<close> as the condition of an \<^verbatim>\<open>if\<close>.\<close>

fun truthy :: "jsval \<Rightarrow> bool" where
  "truthy JUndefined = False"
| "truthy JNull = False"
| "truthy (JBool b) = b"
| "truthy (JNum n) = (n \<noteq> 0)"
| "truthy JInf = True"
| "truthy JNegInf = True"
| "truthy JNaN = False"
| "truthy (JStr s) = (s \<noteq> [])"
| "truthy (JArr xs) = True"
| "truthy (JObj kvs) = True"

text \<open>
  Reading a property. \<^verbatim>\<open>v.k\<close> throws a TypeError when \<open>v\<close> is \<^verbatim>\<open>undefined\<close> or
  \<^verbatim>\<open>null\<close>; otherwise it is the own property, or \<^verbatim>\<open>undefined\<close>. Inherited properties
  are not modelled: the plugin reads none on the values it is given.
\<close>

fun nullish :: "jsval \<Rightarrow> bool" where
  "nullish JUndefined = True"
| "nullish JNull = True"
| "nullish v = False"

fun own_prop :: "jsval \<Rightarrow> string \<Rightarrow> jsval" where
  "own_prop (JObj kvs) k = (case map_of kvs k of None \<Rightarrow> JUndefined | Some v \<Rightarrow> v)"
| "own_prop v k = JUndefined"

definition getprop :: "jsval \<Rightarrow> string \<Rightarrow> error + jsval" where
  "getprop v k = (if nullish v then Inl TypeError else Inr (own_prop v k))"

text \<open>
  The assignment \<^verbatim>\<open>v.k = x\<close> under \<^verbatim>\<open>'use strict'\<close>: a TypeError on \<^verbatim>\<open>undefined\<close>,
  \<^verbatim>\<open>null\<close> and the primitive values. A named property stored on an array is not
  represented (the plugin never reads one back).
\<close>

fun setprop :: "jsval \<Rightarrow> string \<Rightarrow> jsval \<Rightarrow> error + jsval" where
  "setprop (JObj kvs) k x = Inr (JObj (AList.update k x kvs))"
| "setprop (JArr xs) k x = Inr (JArr xs)"
| "setprop v k x = Inl TypeError"

text \<open>\<^verbatim>\<open>String(v)\<close>, as a template literal \<^verbatim>\<open>`${v}`\<close> converts its value.\<close>

fun join_comma :: "string list \<Rightarrow> string" where
  "join_comma [] = []"
| "join_comma [s] = s"
| "join_comma (s # t # ss) = s @ '','' @ join_comma (t # ss)"

fun js_String :: "runtime \<Rightarrow> jsval \<Rightarrow> string" where
  "js_String rt JUndefined = ''undefined''"
| "js_String rt JNull = ''null''"
| "js_String rt (JBool b) = (if b then ''true'' else ''false'')"
| "js_String rt (JNum n) = NumberToString rt n"
| "js_String rt JInf = ''Infinity''"
| "js_String rt JNegInf = ''-Infinity''"
| "js_String rt JNaN = ''NaN''"
| "js_String rt (JStr s) = s"
| "js_String rt (JArr xs) =
     join_comma (map (\<lambda>x. if nullish x then [] else js_String rt x) xs)"
| "js_String rt (JObj kvs) = ''[object Object]''"

text \<open>\<^verbatim>\<open>Number(v)\<close>.\<close>

fun toNumber :: "runtime \<Rightarrow> jsval \<Rightarrow> jsval" where
  "toNumber rt JUndefined = JNaN"
| "toNumber rt JNull = JNum 0"
| "toNumber rt (JBool b) = JNum (if b then 1 else 0)"
| "toNumber rt (JNum n) = JNum n"
| "toNumber rt JInf = JInf"
| "toNumber rt JNegInf = JNegInf"
| "toNumber rt JNaN = JNaN"
| "toNumber rt (JStr s) = StringToNumber rt s"
| "toNumber rt (JArr xs) = StringToNumber rt (js_String rt (JArr xs))"
| "toNumber rt (JObj kvs) = StringToNumber rt (js_String rt (JObj kvs))"

text \<open>
  Rounding to a double. A double has 53 significant bits; the smallest positive one is
  \<open>2^-1074\<close> and every finite one is a multiple of it; a magnitude that rounds to
  \<open>2^1024\<close> or more overflows. \<open>bits n\<close> is the number of binary digits of \<open>n\<close>.
  \<open>double_of a\<close> rounds the magnitude \<open>a\<close> to the nearest double, a tie to the even
  significand; \<open>None\<close> is the overflow.
\<close>

function bits :: "int \<Rightarrow> nat" where
  "bits n = (if n \<le> 0 then 0 else Suc (bits (n div 2)))"
  by pat_completeness auto
termination
  by (relation "measure (\<lambda>n. nat n)") auto

declare bits.simps [simp del]

definition round_half_even :: "rat \<Rightarrow> int" where
  "round_half_even q =
     (let n = \<lfloor>q\<rfloor>; f = q - of_int n
      in if 1 / 2 < f \<or> (f = 1 / 2 \<and> odd n) then n + 1 else n)"

definition min_exp :: nat where
  "min_exp = 1074"

definition double_of :: "rat \<Rightarrow> rat option" where
  "double_of a =
     (let k = a * 2 ^ min_exp;
          s = bits \<lfloor>k\<rfloor> - 53;
          m = round_half_even (k / 2 ^ s);
          r = of_int m * 2 ^ s / 2 ^ min_exp
      in if 2 ^ 1024 \<le> r then None else Some r)"

definition to_double :: "rat \<Rightarrow> jsval" where
  "to_double x =
     (case double_of \<bar>x\<bar> of
        None \<Rightarrow> (if x < 0 then JNegInf else JInf)
      | Some r \<Rightarrow> JNum (if x < 0 then - r else r))"

text \<open>The subtraction \<^verbatim>\<open>a - b\<close>: both operands are converted to numbers; the difference
  of two finite doubles is the exact difference, rounded.\<close>

fun number_sub :: "jsval \<Rightarrow> jsval \<Rightarrow> jsval" where
  "number_sub (JNum x) (JNum y) = to_double (x - y)"
| "number_sub (JNum x) JInf = JNegInf"
| "number_sub (JNum x) JNegInf = JInf"
| "number_sub JInf (JNum y) = JInf"
| "number_sub JInf JNegInf = JInf"
| "number_sub JNegInf (JNum y) = JNegInf"
| "number_sub JNegInf JInf = JNegInf"
| "number_sub a b = JNaN"

definition js_sub :: "runtime \<Rightarrow> jsval \<Rightarrow> jsval \<Rightarrow> jsval" where
  "js_sub rt a b = number_sub (toNumber rt a) (toNumber rt b)"

text \<open>\<^verbatim>\<open>Array.prototype.find\<close>: the first element that satisfies the predicate, or
  \<^verbatim>\<open>undefined\<close> when there is none.\<close>

fun array_find :: "(jsval \<Rightarrow> bool) \<Rightarrow> jsval list \<Rightarrow> jsval" where
  "array_find p [] = JUndefined"
| "array_find p (x # xs) = (if p x then x else array_find p xs)"

section \<open>The module object and the host\<close>

datatype chartType = area | line
datatype chartAlgorithm = absolute

record dimension =
  dim_id :: string
  dim_name :: string
  dim_algorithm :: chartAlgorithm
  dim_multiplier :: int
  dim_divisor :: int
  dim_hidden :: bool

record chart =
  chart_id :: string
  chart_name :: string
  chart_title :: string
  chart_units :: string
  chart_family :: string
  chart_context :: string
  chart_type :: chartType
  chart_priority :: int
  chart_update_every :: jsval
  chart_dimensions :: "(string \<times> dimension) list"

text \<open>The object that \<open>serviceExecute\<close> hands to the host's \<^verbatim>\<open>netdata.service\<close> (its
  \<^verbatim>\<open>processor\<close> and \<^verbatim>\<open>module\<close> fields are constants and left out).\<close>

record service_options =
  so_name :: jsval
  so_update_every :: jsval
  so_hostname :: jsval
  so_port :: jsval
  so_username :: jsval
  so_password :: jsval
  so_chain :: jsval

text \<open>
  A service object of the host, as the plugin uses it: the fields it reads, and what its
  method \<^verbatim>\<open>service.chart(id, chart)\<close> returns (the chart object the host keeps).
\<close>

record service =
  service_name :: jsval
  service_update_every :: jsval
  service_hostname :: jsval
  service_port :: jsval
  service_username :: jsval
  service_password :: jsval
  service_chain :: jsval
  service_chart :: "string \<Rightarrow> chart \<Rightarrow> chart"

text \<open>The calls the plugin makes on a service object, in order.\<close>

datatype sink_call =
    Call_chart string chart
  | Call_commit
  | Call_begin chart
  | Call_set string jsval
  | Call_end

text \<open>
  The state: the mutable fields of the module object \<^verbatim>\<open>multichain\<close> (\<open>update_every\<close>,
  \<open>base_priority\<close>, the chart cache \<open>charts\<close>), the services registered with the host,
  the calls received by the metrics sink, and a ghost counter of the entries into
  \<open>parseCharts\<close>.
\<close>

record state =
  update_every :: int
  base_priority :: int
  charts :: "string \<rightharpoonup> chart"
  services :: "service_options list"
  sink :: "sink_call list"
  parseCharts_calls :: nat

definition multichain :: state where
  "multichain =
     \<lparr>update_every = 5, base_priority = 60000, charts = Map.empty,
      services = [], sink = [], parseCharts_calls = 0\<rparr>"

text \<open>Statements run in a state and either throw or return; the state changes made
  before a throw stay.\<close>

type_synonym 'a js = "state \<Rightarrow> (error + 'a) \<times> state"

definition ret :: "'a \<Rightarrow> 'a js" where
  "ret x st = (Inr x, st)"

definition throw :: "error \<Rightarrow> 'a js" where
  "throw e st = (Inl e, st)"

definition lift :: "error + 'a \<Rightarrow> 'a js" where
  "lift r st = (r, st)"

definition bind :: "'a js \<Rightarrow> ('a \<Rightarrow> 'b js) \<Rightarrow> 'b js" where
  "bind m f st = (case m st of (Inl e, st') \<Rightarrow> (Inl e, st') | (Inr x, st') \<Rightarrow> f x st')"

section \<open>Configuration\<close>

definition isUndefined :: "jsval \<Rightarrow> bool" where
  "isUndefined v = (js_typeof v = ''undefined'')"

definition isDefined :: "jsval \<Rightarrow> bool" where
  "isDefined v = (js_typeof v \<noteq> ''undefined'')"

definition areUndefined :: "jsval list \<Rightarrow> jsval" where
  "areUndefined values = array_find (\<lambda>v. isUndefined v) values"

text \<open>\<open>serviceExecute\<close>: the debug line reads \<^verbatim>\<open>server.name\<close> first, so a nullish
  \<open>server\<close> throws; then the service is created with the fields below.\<close>

definition serviceExecute :: "jsval \<Rightarrow> unit js" where
  "serviceExecute server st =
     (if nullish server then (Inl TypeError, st)
      else
        (Inr (),
         st\<lparr>services := services st @
           [\<lparr>so_name = own_prop server ''name'',
             so_update_every = own_prop server ''updateEvery'',
             so_hostname = own_prop server ''hostname'',
             so_port = own_prop server ''port'',
             so_username = own_prop server ''username'',
             so_password = own_prop server ''password'',
             so_chain = own_prop server ''chain''\<rparr>]\<rparr>))"

text \<open>The body of the \<^verbatim>\<open>forEach\<close> callback of \<open>configure\<close>, on one entry, and the loop
  with its counter \<open>added\<close>.\<close>

definition configure_server :: "jsval \<Rightarrow> int \<Rightarrow> int js" where
  "configure_server server added =
     bind (lift (getprop server ''update_every'')) (\<lambda>ue.
     bind (if isUndefined ue
           then (\<lambda>st. lift (setprop server ''update_every'' (JNum (of_int (update_every st)))) st)
           else ret server) (\<lambda>server'.
       if truthy (areUndefined
            [own_prop server' ''name'', own_prop server' ''hostname'', own_prop server' ''port'',
             own_prop server' ''username'', own_prop server' ''password'', own_prop server' ''chain'',
             own_prop server' ''path''])
       then ret added
       else bind (serviceExecute server') (\<lambda>_. ret (added + 1))))"

fun configure_loop :: "jsval list \<Rightarrow> int \<Rightarrow> int js" where
  "configure_loop [] added = ret added"
| "configure_loop (server # rest) added =
     bind (configure_server server added) (\<lambda>added'. configure_loop rest added')"

definition configure :: "jsval \<Rightarrow> int js" where
  "configure config =
     bind (lift (getprop config ''servers'')) (\<lambda>servers.
       if isUndefined servers then ret 0
       else (case servers of
               JArr entries \<Rightarrow> configure_loop entries 0
             | _ \<Rightarrow> throw TypeError))"

section \<open>The chart registry\<close>

text \<open>The static table \<^verbatim>\<open>multichain.dimensions\<close>: for each chart kind, the keys in
  order and the value stored under each key.\<close>

definition dimensions_blocksSize :: "(string \<times> string) list" where
  "dimensions_blocksSize = [(''size'', ''memSize'')]"

definition dimensions_blocksMemory :: "(string \<times> string) list" where
  "dimensions_blocksMemory = [(''memory'', ''memBytes'')]"

definition dimensions_blocks :: "(string \<times> string) list" where
  "dimensions_blocks = [(''blocks'', ''blocks'')]"

definition dimensions_connections :: "(string \<times> string) list" where
  "dimensions_connections = [(''connections'', ''connections'')]"

definition dimensions_stream_items :: "(string \<times> string) list" where
  "dimensions_stream_items = [(''confirmed'', ''confirmed''), (''unconfirmed'', ''unconfirmed'')]"

definition dimensions_stream_keys :: "(string \<times> string) list" where
  "dimensions_stream_keys = [(''keys'', ''keys'')]"

definition createBasicDimension :: "string \<Rightarrow> string \<Rightarrow> int \<Rightarrow> dimension" where
  "createBasicDimension id' name divisor =
     \<lparr>dim_id = id', dim_name = name, dim_algorithm = absolute, dim_multiplier = 1,
      dim_divisor = divisor, dim_hidden = False\<rparr>"

text \<open>The loop every chart function runs over its table:
  \<^verbatim>\<open>Object.keys(t).forEach(dimension => { dim[t[dimension]] = createBasicDimension(t[dimension], dimension, 1) })\<close>.\<close>

definition build_dim :: "(string \<times> string) list \<Rightarrow> (string \<times> dimension) list" where
  "build_dim t =
     foldl (\<lambda>dim (dimension, key). AList.update key (createBasicDimension key dimension 1) dim)
       [] t"

definition getChartId :: "runtime \<Rightarrow> service \<Rightarrow> string \<Rightarrow> string" where
  "getChartId rt service suffix = js_String rt (service_name service) @ ''.'' @ suffix"

text \<open>The ids the six chart functions compute in their first line.\<close>

definition streamKeysChartId :: "runtime \<Rightarrow> service \<Rightarrow> jsval \<Rightarrow> string" where
  "streamKeysChartId rt service streamName =
     getChartId rt service (''stream.'' @ js_String rt streamName @ ''.key'')"

definition streamItemsChartId :: "runtime \<Rightarrow> service \<Rightarrow> jsval \<Rightarrow> string" where
  "streamItemsChartId rt service streamName =
     getChartId rt service (''stream.'' @ js_String rt streamName @ ''.items'')"

definition blocksSizeChartId :: "runtime \<Rightarrow> service \<Rightarrow> string" where
  "blocksSizeChartId rt service = getChartId rt service ''blocks.size''"

definition blocksMemoryChartId :: "runtime \<Rightarrow> service \<Rightarrow> string" where
  "blocksMemoryChartId rt service = getChartId rt service ''blocks.memory''"

definition blocksChartId :: "runtime \<Rightarrow> service \<Rightarrow> string" where
  "blocksChartId rt service = getChartId rt service ''blocks.count''"

definition connectionsChartId :: "runtime \<Rightarrow> service \<Rightarrow> string" where
  "connectionsChartId rt service = getChartId rt service ''connections.count''"

text \<open>The last three lines of every chart function:
  \<^verbatim>\<open>chart = service.chart(id, chart); multichain.charts[id] = chart; return chart\<close>.\<close>

definition register_chart :: "service \<Rightarrow> string \<Rightarrow> chart \<Rightarrow> state \<Rightarrow> chart \<times> state" where
  "register_chart service id' chart st =
     (let chart' = service_chart service id' chart
      in (chart', st\<lparr>charts := (charts st)(id' \<mapsto> chart'),
                      sink := sink st @ [Call_chart id' chart]\<rparr>))"

definition getStreamKeysChart :: "runtime \<Rightarrow> service \<Rightarrow> jsval \<Rightarrow> state \<Rightarrow> chart \<times> state" where
  "getStreamKeysChart rt service streamName st =
     (let id' = streamKeysChartId rt service streamName in
      case charts st id' of
        Some chart \<Rightarrow> (chart, st)
      | None \<Rightarrow>
          register_chart service id'
            \<lparr>chart_id = id', chart_name = [],
             chart_title = js_String rt (service_name service) @ '' stream '' @
                           js_String rt streamName @ '' keys'',
             chart_units = ''keys'',
             chart_family = ''stream '' @ js_String rt streamName,
             chart_context = ''multichain'', chart_type = area,
             chart_priority = base_priority st + 1,
             chart_update_every = service_update_every service,
             chart_dimensions = build_dim dimensions_stream_keys\<rparr> st)"

definition getStreamItemsChart :: "runtime \<Rightarrow> service \<Rightarrow> jsval \<Rightarrow> state \<Rightarrow> chart \<times> state" where
  "getStreamItemsChart rt service streamName st =
     (let id' = streamItemsChartId rt service streamName in
      case charts st id' of
        Some chart \<Rightarrow> (chart, st)
      | None \<Rightarrow>
          register_chart service id'
            \<lparr>chart_id = id', chart_name = [],
             chart_title = js_String rt (service_name service) @ '' stream '' @
                           js_String rt streamName @ '' items'',
             chart_units = ''items'',
             chart_family = ''stream '' @ js_String rt streamName,
             chart_context = ''multichain'', chart_type = area,
             chart_priority = base_priority st + 1,
             chart_update_every = service_update_every service,
             chart_dimensions = build_dim dimensions_stream_items\<rparr> st)"

definition getBlocksSizeChart :: "runtime \<Rightarrow> service \<Rightarrow> state \<Rightarrow> chart \<times> state" where
  "getBlocksSizeChart rt service st =
     (let id' = blocksSizeChartId rt service in
      case charts st id' of
        Some chart \<Rightarrow> (chart, st)
      | None \<Rightarrow>
          register_chart service id'
            \<lparr>chart_id = id', chart_name = [],
             chart_title = js_String rt (service_name service) @ '' blocks size'',
             chart_units = ''transactions'', chart_family = ''blocks'',
             chart_context = ''multichain'', chart_type = area,
             chart_priority = base_priority st + 1,
             chart_update_every = service_update_every service,
             chart_dimensions = build_dim dimensions_blocksSize\<rparr> st)"

definition getBlocksMemoryChart :: "runtime \<Rightarrow> service \<Rightarrow> state \<Rightarrow> chart \<times> state" where
  "getBlocksMemoryChart rt service st =
     (let id' = blocksMemoryChartId rt service in
      case charts st id' of
        Some chart \<Rightarrow> (chart, st)
      | None \<Rightarrow>
          register_chart service id'
            \<lparr>chart_id = id', chart_name = [],
             chart_title = js_String rt (service_name service) @ '' blocks memory'',
             chart_units = ''bytes'', chart_family = ''blocks'',
             chart_context = ''multichain'', chart_type = area,
             chart_priority = base_priority st + 1,
             chart_update_every = service_update_every service,
             chart_dimensions = build_dim dimensions_blocksMemory\<rparr> st)"

definition getBlocksChart :: "runtime \<Rightarrow> service \<Rightarrow> state \<Rightarrow> chart \<times> state" where
  "getBlocksChart rt service st =
     (let id' = blocksChartId rt service in
      case charts st id' of
        Some chart \<Rightarrow> (chart, st)
      | None \<Rightarrow>
          register_chart service id'
            \<lparr>chart_id = id', chart_name = [],
             chart_title = js_String rt (service_name service) @ '' blocks'',
             chart_units = ''blocks'', chart_family = ''blocks'',
             chart_context = ''multichain'', chart_type = area,
             chart_priority = base_priority st + 1,
             chart_update_every = service_update_every service,
             chart_dimensions = build_dim dimensions_blocks\<rparr> st)"

definition getConnectionsChart :: "runtime \<Rightarrow> service \<Rightarrow> state \<Rightarrow> chart \<times> state" where
  "getConnectionsChart rt service st =
     (let id' = connectionsChartId rt service in
      case charts st id' of
        Some chart \<Rightarrow> (chart, st)
      | None \<Rightarrow>
          register_chart service id'
            \<lparr>chart_id = id', chart_name = [],
             chart_title = js_String rt (service_name service) @ '' connections'',
             chart_units = ''connections'', chart_family = ''connections'',
             chart_context = ''multichain'', chart_type = line,
             chart_priority = base_priority st + 1,
             chart_update_every = service_update_every service,
             chart_dimensions = build_dim dimensions_connections\<rparr> st)"

section \<open>The stats mapper\<close>

record dimension_value =
  dv_name :: string
  dv_value :: jsval

record chart_values =
  cv_chart :: chart
  cv_dimensions :: "dimension_value list"

definition getDimension :: "string \<Rightarrow> jsval \<Rightarrow> dimension_value" where
  "getDimension name v = \<lparr>dv_name = name, dv_value = v\<rparr>"

definition getChart :: "chart \<Rightarrow> dimension_value list \<Rightarrow> chart_values" where
  "getChart chart dimensions = \<lparr>cv_chart = chart, cv_dimensions = dimensions\<rparr>"

text \<open>A chart function always returns.\<close>

definition always :: "(state \<Rightarrow> 'a \<times> state) \<Rightarrow> 'a js" where
  "always m st = (case m st of (x, st') \<Rightarrow> (Inr x, st'))"

text \<open>\<^verbatim>\<open>Object.keys(t).map(dimension => this.getDimension(t[dimension], stats[t[dimension]]))\<close>,
  on a \<open>stats\<close> that is not nullish.\<close>

definition map_dimensions :: "(string \<times> string) list \<Rightarrow> jsval \<Rightarrow> dimension_value list" where
  "map_dimensions t stats = map (\<lambda>(dimension, key). getDimension key (own_prop stats key)) t"

text \<open>\<open>parseStreamItemsChart\<close> reads \<open>items\<close> and \<open>confirmed\<close> before anything else;
  the other parse functions evaluate the chart argument first and read \<open>stats\<close> after
  (the stream functions read the stream's name for the chart argument).\<close>

definition parseStreamItemsChart :: "runtime \<Rightarrow> service \<Rightarrow> jsval \<Rightarrow> chart_values js" where
  "parseStreamItemsChart rt service streamStats =
     bind (lift (getprop streamStats ''items'')) (\<lambda>items.
     bind (lift (getprop streamStats ''confirmed'')) (\<lambda>confirmed.
     bind (lift (getprop streamStats ''name'')) (\<lambda>name.
     bind (always (getStreamItemsChart rt service name)) (\<lambda>chart.
     bind (lift (getprop streamStats ''confirmed'')) (\<lambda>confirmed'.
       ret (getChart chart
              [getDimension ''confirmed'' confirmed',
               getDimension ''unconfirmed'' (js_sub rt items confirmed)]))))))"

definition parseStreamKeysChart :: "runtime \<Rightarrow> service \<Rightarrow> jsval \<Rightarrow> chart_values js" where
  "parseStreamKeysChart rt service streamStats =
     bind (lift (getprop streamStats ''name'')) (\<lambda>name.
     bind (always (getStreamKeysChart rt service name)) (\<lambda>chart.
       ret (getChart chart (map_dimensions dimensions_stream_keys streamStats))))"

definition parseBlocksSizeChart :: "runtime \<Rightarrow> service \<Rightarrow> jsval \<Rightarrow> chart_values js" where
  "parseBlocksSizeChart rt service stats =
     bind (always (getBlocksSizeChart rt service)) (\<lambda>chart.
       if nullish stats then throw TypeError
       else ret (getChart chart (map_dimensions dimensions_blocksSize stats)))"

definition parseBlocksMemoryChart :: "runtime \<Rightarrow> service \<Rightarrow> jsval \<Rightarrow> chart_values js" where
  "parseBlocksMemoryChart rt service stats =
     bind (always (getBlocksMemoryChart rt service)) (\<lambda>chart.
       if nullish stats then throw TypeError
       else ret (getChart chart (map_dimensions dimensions_blocksMemory stats)))"

definition parseBlocksChart :: "runtime \<Rightarrow> service \<Rightarrow> jsval \<Rightarrow> chart_values js" where
  "parseBlocksChart rt service stats =
     bind (always (getBlocksChart rt service)) (\<lambda>chart.
       if nullish stats then throw TypeError
       else ret (getChart chart (map_dimensions dimensions_blocks stats)))"

definition parseConnectionsChart :: "runtime \<Rightarrow> service \<Rightarrow> jsval \<Rightarrow> chart_values js" where
  "parseConnectionsChart rt service stats =
     bind (always (getConnectionsChart rt service)) (\<lambda>chart.
       if nullish stats then throw TypeError
       else ret (getChart chart (map_dimensions dimensions_connections stats)))"

text \<open>The \<^verbatim>\<open>forEach\<close> over \<^verbatim>\<open>stats.streams\<close>, pushing onto the array \<open>charts\<close>.\<close>

fun parse_streams ::
  "runtime \<Rightarrow> service \<Rightarrow> jsval list \<Rightarrow> chart_values list \<Rightarrow> chart_values list js" where
  "parse_streams rt service [] cs = ret cs"
| "parse_streams rt service (stream # rest) cs =
     bind (lift (getprop stream ''subscribed'')) (\<lambda>subscribed.
       if truthy subscribed then
         bind (parseStreamItemsChart rt service stream) (\<lambda>c1.
         bind (parseStreamKeysChart rt service stream) (\<lambda>c2.
           parse_streams rt service rest (cs @ [c1, c2])))
       else parse_streams rt service rest cs)"

text \<open>\<open>parseCharts\<close>. \<^verbatim>\<open>stats.streams.forEach\<close> is a TypeError unless \<^verbatim>\<open>stats.streams\<close>
  is an array (no other value of the model has a method \<^verbatim>\<open>forEach\<close>).\<close>

definition parseCharts :: "runtime \<Rightarrow> service \<Rightarrow> jsval \<Rightarrow> chart_values list js" where
  "parseCharts rt service stats =
     bind (\<lambda>st. (Inr (), st\<lparr>parseCharts_calls := Suc (parseCharts_calls st)\<rparr>)) (\<lambda>_.
     bind (lift (getprop stats ''streams'')) (\<lambda>streams.
     bind (case streams of
             JArr ss \<Rightarrow> parse_streams rt service ss []
           | _ \<Rightarrow> throw TypeError) (\<lambda>cs.
     bind (parseBlocksSizeChart rt service stats) (\<lambda>c3.
     bind (parseBlocksMemoryChart rt service stats) (\<lambda>c4.
     bind (parseBlocksChart rt service stats) (\<lambda>c5.
     bind (parseConnectionsChart rt service stats) (\<lambda>c6.
       ret (cs @ [c3, c4, c5, c6]))))))))"

section \<open>Validation and the collection cycle\<close>

definition isResponseValid :: "jsval \<Rightarrow> error + bool" where
  "isResponseValid json =
     (case getprop json ''blocks'' of
        Inl e \<Rightarrow> Inl e
      | Inr blocks \<Rightarrow>
          if isUndefined blocks then Inr False
          else (case getprop json ''connections'' of
                  Inl e \<Rightarrow> Inl e
                | Inr connections \<Rightarrow> Inr (isDefined connections)))"

text \<open>\<open>convertToJson\<close>; \<^verbatim>\<open>JSON.parse\<close> converts its argument to a string first, and its
  error is caught (and logged) here.\<close>

definition convertToJson :: "runtime \<Rightarrow> jsval \<Rightarrow> error + jsval" where
  "convertToJson rt content =
     (if content = JNull then Inr JNull
      else
        (case (if js_typeof content \<noteq> ''object''
               then JSON_parse rt (js_String rt content) else Inr content) of
           Inl error \<Rightarrow> Inr JNull
         | Inr json \<Rightarrow>
             (case isResponseValid json of
                Inl e \<Rightarrow> Inl e
              | Inr valid \<Rightarrow> Inr (if valid then json else JNull))))"

text \<open>The calls of the \<^verbatim>\<open>forEach\<close> of \<open>processResponse\<close> for one entry.\<close>

definition emit :: "chart_values \<Rightarrow> sink_call list" where
  "emit c =
     [Call_begin (cv_chart c)] @
     map (\<lambda>dimension. Call_set (dv_name dimension) (dv_value dimension)) (cv_dimensions c) @
     [Call_end]"

definition processResponse :: "runtime \<Rightarrow> service \<Rightarrow> jsval \<Rightarrow> unit js" where
  "processResponse rt service content =
     bind (lift (convertToJson rt content)) (\<lambda>stats.
       if stats = JNull then ret ()
       else
         bind (\<lambda>st. (Inr (), st\<lparr>sink := sink st @ [Call_commit]\<rparr>)) (\<lambda>_.
         bind (parseCharts rt service stats) (\<lambda>cs.
           (\<lambda>st. (Inr (), st\<lparr>sink := sink st @ concat (map emit cs)\<rparr>)))))"

text \<open>Collection cycles one after the other, each on its service with the content its
  collector delivered; a cycle that throws leaves the state it reached.\<close>

fun run_cycles :: "runtime \<Rightarrow> (service \<times> jsval) list \<Rightarrow> state \<Rightarrow> state" where
  "run_cycles rt [] st = st"
| "run_cycles rt ((service, content) # rest) st =
     run_cycles rt rest (snd (processResponse rt service content st))"

section \<open>The RPC client and the collector\<close>

definition sbind :: "error + 'a \<Rightarrow> ('a \<Rightarrow> error + 'b) \<Rightarrow> error + 'b" where
  "sbind r f = (case r of Inl e \<Rightarrow> Inl e | Inr x \<Rightarrow> f x)"

text \<open>
  What \<open>post\<close> does before the request is sent: \<^verbatim>\<open>JSON.stringify(data)\<close> (which is
  \<^verbatim>\<open>undefined\<close> for \<^verbatim>\<open>undefined\<close>), the writes of \<^verbatim>\<open>options.headers\<close>, of its
  \<^verbatim>\<open>Content-Type\<close> and \<^verbatim>\<open>Content-Length\<close> (\<^verbatim>\<open>Buffer.byteLength\<close> throws a TypeError on
  \<^verbatim>\<open>undefined\<close>) and of \<^verbatim>\<open>options.method\<close>. The result is the options object as the
  request gets it, or the error thrown, which rejects the promise.
\<close>

definition post_prepare :: "runtime \<Rightarrow> jsval \<Rightarrow> jsval \<Rightarrow> error + jsval" where
  "post_prepare rt options data =
     (let dataString = (if data = JUndefined then None else Some (JSON_stringify rt data)) in
      sbind (getprop options ''headers'') (\<lambda>h.
      let headers = (if truthy h then h else JObj []) in
      sbind (setprop options ''headers'' headers) (\<lambda>options1.
      sbind (setprop headers ''Content-Type'' (JStr ''application/json'')) (\<lambda>headers1.
      sbind (case dataString of
               None \<Rightarrow> Inl TypeError
             | Some s \<Rightarrow> Inr (JNum (of_nat (length s)))) (\<lambda>byteLength.
      sbind (setprop headers1 ''Content-Length'' byteLength) (\<lambda>headers2.
      sbind (setprop options1 ''headers'' headers2) (\<lambda>options2.
        setprop options2 ''method'' (JStr ''POST''))))))))"

text \<open>
  What the transport (\<^verbatim>\<open>http\<close> or \<^verbatim>\<open>https\<close>, by \<^verbatim>\<open>options.protocol\<close>) does with one
  request, as far as it settles the promise: \<^verbatim>\<open>request\<close> throws, or the request emits
  \<^verbatim>\<open>'error'\<close> with an error value, or a response arrives and ends, with its status code,
  status message, headers and the chunks of its body. The transport is a parameter
  \<open>net\<close>, a function of the prepared options and of the posted data (it gets the text
  of the data, which is a function of the data). A request that gets none of these
  events leaves the promise pending; that is not modelled.
\<close>

datatype http_event =
    Request_throws error
  | Req_error jsval
  | Res_end int jsval jsval "string list"

text \<open>A promise that is settled: resolved with a value, rejected with a value, or
  rejected with an error thrown in its executor.\<close>

datatype promise = Resolved jsval | Rejected jsval | Failed error

definition post :: "runtime \<Rightarrow> (jsval \<Rightarrow> jsval \<Rightarrow> http_event) \<Rightarrow> jsval \<Rightarrow> jsval \<Rightarrow> promise" where
  "post rt net options data =
     (case post_prepare rt options data of
        Inl e \<Rightarrow> Failed e
      | Inr options' \<Rightarrow>
          (case net options' data of
             Request_throws e \<Rightarrow> Failed e
           | Res_end statusCode statusMessage headers body \<Rightarrow>
               (let response =
                      [(''statusCode'', JNum (of_int statusCode)),
                       (''statusMessage'',
                        if truthy statusMessage then statusMessage else JStr []),
                       (''headers'', headers)];
                    response' =
                      (case JSON_parse rt (concat body) of
                         Inr parsed \<Rightarrow> AList.update ''body'' parsed response
                       | Inl error \<Rightarrow>
                           AList.update ''body'' (JObj [(''error'', error)]) response)
                in if statusCode < 200 \<or> statusCode > 299
                   then Rejected (JObj response')
                   else Resolved (JObj response'))
           | Req_error e \<Rightarrow>
               Rejected (JObj [(''statusCode'', JNum (- 1)),
                               (''statusMessage'', JStr ''Error during call''),
                               (''body'', JObj [(''error'', e)])])))"

text \<open>The three \<^verbatim>\<open>then\<close> handlers of \<open>process\<close>, as far as they write \<open>data\<close>; a handler
  that throws rejects the chain.\<close>

definition then_getinfo :: "(string \<times> jsval) list \<Rightarrow> jsval \<Rightarrow> error + (string \<times> jsval) list" where
  "then_getinfo data info =
     sbind (getprop info ''body'') (\<lambda>body.
     sbind (getprop body ''result'') (\<lambda>result.
     sbind (getprop result ''blocks'') (\<lambda>blocks.
     sbind (getprop result ''connections'') (\<lambda>connections.
       Inr (AList.update ''connections'' connections
              (AList.update ''blocks'' blocks data))))))"

definition then_getmempoolinfo ::
  "(string \<times> jsval) list \<Rightarrow> jsval \<Rightarrow> error + (string \<times> jsval) list" where
  "then_getmempoolinfo data mempoolinfo =
     sbind (getprop mempoolinfo ''body'') (\<lambda>body.
     sbind (getprop body ''result'') (\<lambda>result.
     sbind (getprop result ''size'') (\<lambda>size'.
     sbind (getprop result ''bytes'') (\<lambda>bytes.
       Inr (AList.update ''memBytes'' bytes
              (AList.update ''memSize'' size' data))))))"

definition then_liststreams ::
  "(string \<times> jsval) list \<Rightarrow> jsval \<Rightarrow> error + (string \<times> jsval) list" where
  "then_liststreams data streams =
     sbind (getprop streams ''body'') (\<lambda>body.
     sbind (getprop body ''result'') (\<lambda>result.
       Inr (AList.update ''streams'' result data)))"

text \<open>One link of the chain: the call, then its handler. \<open>None\<close> is a rejected chain
  (the reason is only logged by the \<^verbatim>\<open>catch\<close>).\<close>

definition rpc_step ::
  "runtime \<Rightarrow> (jsval \<Rightarrow> jsval \<Rightarrow> http_event) \<Rightarrow> jsval \<Rightarrow> jsval \<Rightarrow>
   ((string \<times> jsval) list \<Rightarrow> jsval \<Rightarrow> error + (string \<times> jsval) list) \<Rightarrow>
   (string \<times> jsval) list \<Rightarrow> (string \<times> jsval) list option" where
  "rpc_step rt net options request handler data =
     (case post rt net options request of
        Resolved response \<Rightarrow>
          (case handler data response of Inl e \<Rightarrow> None | Inr data' \<Rightarrow> Some data')
      | Rejected reason \<Rightarrow> None
      | Failed e \<Rightarrow> None)"

definition rpc_options :: "runtime \<Rightarrow> service \<Rightarrow> jsval" where
  "rpc_options rt service =
     JObj [(''hostname'', service_hostname service),
           (''port'', service_port service),
           (''auth'', JStr (js_String rt (service_username service) @ '':'' @
                            js_String rt (service_password service))),
           (''chain'', service_chain service)]"

definition rpc_request :: "string \<Rightarrow> service \<Rightarrow> jsval" where
  "rpc_request method service =
     JObj [(''method'', JStr method), (''chain_name'', service_chain service),
           (''id'', JNum 1), (''jsonrpc'', JStr ''1.0''), (''params'', JArr [])]"

text \<open>
  \<open>process\<close>. The callback is any function on a state of its own that returns or throws.
  The result is the list of the requests posted, in order, and the callback's state at the
  end. The final \<^verbatim>\<open>.then(callback).catch(...)\<close> calls \<open>callback(null)\<close> also when
  \<open>callback(data)\<close> itself throws. The three calls share the options object, in which
  \<open>post\<close> leaves its headers and method; each call is given the options as built here,
  which \<open>post\<close> prepares to the same object.
\<close>

definition process ::
  "runtime \<Rightarrow> (jsval \<Rightarrow> jsval \<Rightarrow> http_event) \<Rightarrow> service \<Rightarrow>
   (jsval \<Rightarrow> 's \<Rightarrow> (error + unit) \<times> 's) \<Rightarrow> 's \<Rightarrow> jsval list \<times> 's" where
  "process rt net service callback s =
     (let options = rpc_options rt service;
          getinfo = rpc_request ''getinfo'' service;
          getmempoolinfo = rpc_request ''getmempoolinfo'' service;
          liststreams = rpc_request ''liststreams'' service;
          data = []
      in case rpc_step rt net options getinfo then_getinfo data of
           None \<Rightarrow> ([getinfo], snd (callback JNull s))
         | Some data1 \<Rightarrow>
             (case rpc_step rt net options getmempoolinfo then_getmempoolinfo data1 of
                None \<Rightarrow> ([getinfo, getmempoolinfo], snd (callback JNull s))
              | Some data2 \<Rightarrow>
                  (case rpc_step rt net options liststreams then_liststreams data2 of
                     None \<Rightarrow> ([getinfo, getmempoolinfo, liststreams], snd (callback JNull s))
                   | Some data3 \<Rightarrow>
                       ([getinfo, getmempoolinfo, liststreams],
                        (case callback (JObj data3) s of
                           (Inl e, s') \<Rightarrow> snd (callback JNull s')
                         | (Inr u, s') \<Rightarrow> s')))))"

text \<open>A callback that only records what it is given.\<close>

definition record_callback :: "jsval \<Rightarrow> jsval list \<Rightarrow> (error + unit) \<times> jsval list" where
  "record_callback v seen = (Inr (), seen @ [v])"

section \<open>Notions used in the statements\<close>

text \<open>A call of the chain fails when its promise is rejected or its handler throws.\<close>

definition rpc_fails ::
  "runtime \<Rightarrow> (jsval \<Rightarrow> jsval \<Rightarrow> http_event) \<Rightarrow> service \<Rightarrow> string \<Rightarrow>
   ((string \<times> jsval) list \<Rightarrow> jsval \<Rightarrow> error + (string \<times> jsval) list) \<Rightarrow> bool" where
  "rpc_fails rt net service method handler =
     (case post rt net (rpc_options rt service) (rpc_request method service) of
        Resolved response \<Rightarrow> (case handler [] response of Inl e \<Rightarrow> True | Inr d \<Rightarrow> False)
      | Rejected reason \<Rightarrow> True
      | Failed e \<Rightarrow> True)"

text \<open>The ids of all charts of a node whose streams have the given names.\<close>

definition node_chart_ids :: "runtime \<Rightarrow> service \<Rightarrow> string list" where
  "node_chart_ids rt service =
     [blocksSizeChartId rt service, blocksMemoryChartId rt service,
      blocksChartId rt service, connectionsChartId rt service]"

definition stream_chart_ids :: "runtime \<Rightarrow> service \<Rightarrow> jsval \<Rightarrow> string list" where
  "stream_chart_ids rt service streamName =
     [streamItemsChartId rt service streamName, streamKeysChartId rt service streamName]"

definition chart_ids :: "runtime \<Rightarrow> service \<Rightarrow> jsval list \<Rightarrow> string list" where
  "chart_ids rt service names =
     node_chart_ids rt service @ concat (map (stream_chart_ids rt service) names)"

text \<open>The common shape of the six chart functions, for the proofs.\<close>

definition get_or_create ::
  "service \<Rightarrow> string \<Rightarrow> (state \<Rightarrow> chart) \<Rightarrow> state \<Rightarrow> chart \<times> state" where
  "get_or_create service id' mk st =
     (case charts st id' of
        Some chart \<Rightarrow> (chart, st)
      | None \<Rightarrow> register_chart service id' (mk st) st)"

text \<open>A chart function called twice in a row: the second call returns the chart of the
  first and leaves the state of the first (so it makes no call on the sink).\<close>

definition called_twice :: "(state \<Rightarrow> chart \<times> state) \<Rightarrow> state \<Rightarrow> bool" where
  "called_twice g st = (case g st of (c, st1) \<Rightarrow> g st1 = (c, st1))"

text \<open>The ids of the charts registered with the sink, one for each call of
  \<^verbatim>\<open>service.chart\<close>, in order.\<close>

definition registered :: "sink_call list \<Rightarrow> string list" where
  "registered calls =
     concat (map (\<lambda>c. case c of Call_chart id' chart \<Rightarrow> [id'] | _ \<Rightarrow> []) calls)"

definition registry_ok :: "state \<Rightarrow> bool" where
  "registry_ok st =
     (distinct (registered (sink st)) \<and> set (registered (sink st)) \<subseteq> dom (charts st))"

definition preserves :: "(state \<Rightarrow> bool) \<Rightarrow> 'a js \<Rightarrow> bool" where
  "preserves P m = (\<forall>st. P st \<longrightarrow> P (snd (m st)))"

definition getter_ok :: "(state \<Rightarrow> bool) \<Rightarrow> bool" where
  "getter_ok P = (\<forall>service i mk st. P st \<longrightarrow> P (snd (get_or_create service i mk st)))"








section \<open>Example values\<close>

text \<open>A runtime, a service, a transport and snapshots for the concrete instances below.
  The example \<^verbatim>\<open>JSON.parse\<close> knows the texts of \<open>example_texts\<close> and throws on every
  other one; the example \<^verbatim>\<open>JSON.stringify\<close> prints the method of a request only; the
  example conversion of numbers prints the integers. The example transport answers the
  three calls with the texts, except the call whose method is \<open>failing\<close>, which gets a
  connection error.\<close>

function show_nat :: "nat \<Rightarrow> string" where
  "show_nat n =
     (if n < 10 then [char_of (48 + n)] else show_nat (n div 10) @ [char_of (48 + n mod 10)])"
  by pat_completeness auto
termination
  by (relation "measure (\<lambda>n. n)") auto

definition example_stream :: jsval where
  "example_stream =
     JObj [(''name'', JStr ''s1''), (''subscribed'', JBool True), (''items'', JNum 10),
           (''confirmed'', JNum 7), (''keys'', JNum 3)]"

definition example_snapshot :: jsval where
  "example_snapshot =
     JObj [(''blocks'', JNum 100), (''connections'', JNum 5), (''memSize'', JNum 2),
           (''memBytes'', JNum 512), (''streams'', JArr [example_stream])]"




definition example_texts :: "(string \<times> jsval) list" where
  \<open>example_texts =
     [(''{"result":{"blocks":100,"connections":5}}'',
       JObj [(''result'', JObj [(''blocks'', JNum 100), (''connections'', JNum 5)])]),
      (''{"result":{"size":2,"bytes":512}}'',
       JObj [(''result'', JObj [(''size'', JNum 2), (''bytes'', JNum 512)])]),
      (''{"result":[{"name":"s1","subscribed":true,"items":10,"confirmed":7,"keys":3}]}'',
       JObj [(''result'', JArr [example_stream])]),
      (''{}'', JObj []),
      (''null'', JNull)]\<close>

definition example_runtime :: runtime where
  \<open>example_runtime =
     \<lparr>JSON_parse = (\<lambda>s. case map_of example_texts s of
                           Some v \<Rightarrow> Inr v
                         | None \<Rightarrow> Inl (JStr ''SyntaxError'')),
      JSON_stringify = (\<lambda>v. case own_prop v ''method'' of
                               JStr m \<Rightarrow> ''{"method":"'' @ m @ ''"}''
                             | _ \<Rightarrow> ''null''),
      StringToNumber = (\<lambda>s. if s = [] then JNum 0 else JNaN),
      NumberToString =
        (\<lambda>q. if q < 0 then ''-'' @ show_nat (nat (- \<lfloor>q\<rfloor>)) else show_nat (nat \<lfloor>q\<rfloor>))\<rparr>\<close>

definition example_net :: "string \<Rightarrow> jsval \<Rightarrow> jsval \<Rightarrow> http_event" where
  \<open>example_net failing options data =
     (if own_prop data ''method'' = JStr failing then Req_error (JStr ''ECONNREFUSED'')
      else if own_prop data ''method'' = JStr ''getinfo''
        then Res_end 200 (JStr ''OK'') (JObj [])
          [''{"result":{"blocks":100,'', ''"connections":5}}'']
      else if own_prop data ''method'' = JStr ''getmempoolinfo''
        then Res_end 200 (JStr ''OK'') (JObj []) [''{"result":{"size":2,"bytes":512}}'']
      else if own_prop data ''method'' = JStr ''liststreams''
        then Res_end 200 (JStr ''OK'') (JObj [])
          [''{"result":[{"name":"s1","subscribed":true,"items":10,"confirmed":7,"keys":3}]}'']
      else Res_end 404 (JStr ''Not Found'') (JObj []) [])\<close>

definition example_service :: service where
  "example_service =
     \<lparr>service_name = JStr ''n1'', service_update_every = JNum 5,
      service_hostname = JStr ''h'', service_port = JNum 1,
      service_username = JStr ''u'', service_password = JStr ''p'',
      service_chain = JStr ''c'', service_chart = (\<lambda>id' chart. chart)\<rparr>"

section \<open>Properties\<close>

lemmas js_defs = bind_def lift_def ret_def throw_def always_def getprop_def

subsection \<open>Configuration\<close>

lemma areUndefined_always: "areUndefined values = JUndefined"
  unfolding areUndefined_def isUndefined_def
  by (induction "values") (auto elim: js_typeof.elims)

text \<open>
  C1. The claim: \<open>configure\<close> registers exactly the entries of \<open>servers\<close> in which name,
  hostname, port, username, password, chain and path are all defined, and skips every
  other entry without counting it. The code does not: \<open>areUndefined\<close> returns the element
  that \<^verbatim>\<open>find\<close> found, which is \<^verbatim>\<open>undefined\<close> itself, so its result is never truthy and
  no entry is skipped. On \<^verbatim>\<open>{servers: [{name: "n1"}]}\<close>, an entry with six of the seven
  fields missing, \<open>configure\<close> registers the entry and returns 1.
\<close>

theorem configure_registers_incomplete_entry:
  "(\<forall>values. \<not> truthy (areUndefined values)) \<and>
   configure (JObj [(''servers'', JArr [JObj [(''name'', JStr ''n1'')]])]) multichain =
     (Inr 1,
      multichain\<lparr>services :=
        [\<lparr>so_name = JStr ''n1'', so_update_every = JUndefined, so_hostname = JUndefined,
          so_port = JUndefined, so_username = JUndefined, so_password = JUndefined,
          so_chain = JUndefined\<rparr>]\<rparr>)"
  by (simp add: areUndefined_always configure_def bind_def lift_def getprop_def
      isUndefined_def configure_server_def serviceExecute_def ret_def multichain_def)

text \<open>
  C7. The claim: the service of a registered node carries the node's configured
  \<open>update_every\<close>, the entry's own or the global default. The code does not: \<open>configure\<close>
  stores the default under \<^verbatim>\<open>server.update_every\<close>, and \<open>serviceExecute\<close> reads
  \<^verbatim>\<open>server.updateEvery\<close>, a property no entry has. On a complete entry with
  \<^verbatim>\<open>update_every: 10\<close> the service is created with \<^verbatim>\<open>update_every: undefined\<close>.
\<close>

theorem serviceExecute_drops_update_every:
  "configure
     (JObj [(''servers'', JArr [JObj
        [(''name'', JStr ''n1''), (''hostname'', JStr ''h''), (''port'', JNum 1),
         (''username'', JStr ''u''), (''password'', JStr ''p''), (''chain'', JStr ''c''),
         (''update_every'', JNum 10), (''path'', JStr ''/'')]])]) multichain =
     (Inr 1,
      multichain\<lparr>services :=
        [\<lparr>so_name = JStr ''n1'', so_update_every = JUndefined, so_hostname = JStr ''h'',
          so_port = JNum 1, so_username = JStr ''u'', so_password = JStr ''p'',
          so_chain = JStr ''c''\<rparr>]\<rparr>)"
  by (simp add: configure_def bind_def lift_def getprop_def isUndefined_def
      configure_server_def areUndefined_def serviceExecute_def ret_def multichain_def)

subsection \<open>Validation\<close>

lemma isResponseValid_missing:
  assumes "getprop json ''blocks'' = Inr JUndefined \<or>
           getprop json ''connections'' = Inr JUndefined"
  shows "isResponseValid json = Inr False"
proof (cases "nullish json")
  case True
  with assms show ?thesis by (simp add: getprop_def)
next
  case False
  with assms show ?thesis
    by (auto simp: isResponseValid_def getprop_def isDefined_def isUndefined_def)
qed

text \<open>
  C3. When the content given to \<open>processResponse\<close> is \<^verbatim>\<open>null\<close>, or the snapshot (the
  content itself when it is an object, what \<^verbatim>\<open>JSON.parse\<close> returns for it otherwise) has
  \<open>blocks\<close> undefined or \<open>connections\<close> undefined, \<open>processResponse\<close> returns with the
  state unchanged: \<open>parseCharts\<close> is not entered (its counter is the same) and the sink
  receives no call, in particular no begin, set or end.
\<close>

theorem invalid_snapshot_skips_cycle:
  assumes "content = JNull \<or>
     (\<exists>json.
        (js_typeof content = ''object'' \<and> json = content \<or>
         js_typeof content \<noteq> ''object'' \<and>
           JSON_parse rt (js_String rt content) = Inr json) \<and>
        (getprop json ''blocks'' = Inr JUndefined \<or>
         getprop json ''connections'' = Inr JUndefined))"
  shows "processResponse rt service content st = (Inr (), st)"
proof -
  have "convertToJson rt content = Inr JNull"
  proof (cases "content = JNull")
    case True
    then show ?thesis by (simp add: convertToJson_def)
  next
    case False
    with assms obtain json where
      j: "js_typeof content = ''object'' \<and> json = content \<or>
          js_typeof content \<noteq> ''object'' \<and>
            JSON_parse rt (js_String rt content) = Inr json"
      and m: "getprop json ''blocks'' = Inr JUndefined \<or>
              getprop json ''connections'' = Inr JUndefined"
      by blast
    from m have "isResponseValid json = Inr False"
      by (rule isResponseValid_missing)
    with j False show ?thesis
      by (auto simp: convertToJson_def)
  qed
  then show ?thesis
    by (simp add: processResponse_def js_defs)
qed

theorem invalid_snapshot_skips_cycle_witness:
  "getprop (JObj [(''blocks'', JNum 100)]) ''connections'' = Inr JUndefined \<and>
   processResponse example_runtime example_service (JObj [(''blocks'', JNum 100)]) multichain =
     (Inr (), multichain) \<and>
   JSON_parse example_runtime (js_String example_runtime (JStr ''{}'')) = Inr (JObj []) \<and>
   processResponse example_runtime example_service (JStr ''{}'') multichain =
     (Inr (), multichain)"
proof -
  have a: "getprop (JObj [(''blocks'', JNum 100)]) ''connections'' = Inr JUndefined"
    by (simp add: getprop_def)
  have b: "JSON_parse example_runtime (js_String example_runtime (JStr ''{}'')) = Inr (JObj [])"
    by (simp add: example_runtime_def example_texts_def)
  have c: "getprop (JObj []) ''blocks'' = Inr JUndefined"
    by (simp add: getprop_def)
  show ?thesis
    using a b
      invalid_snapshot_skips_cycle [of "JObj [(''blocks'', JNum 100)]" example_runtime
        example_service multichain]
      invalid_snapshot_skips_cycle [of "JStr ''{}''" example_runtime example_service multichain]
      c
    by simp
qed

text \<open>
  C10. Some object with \<open>blocks\<close> and \<open>connections\<close> defined and no \<open>streams\<close> passes
  \<open>isResponseValid\<close>, and \<open>processResponse\<close> throws a TypeError on it, with every runtime,
  service and state: \<open>parseCharts\<close> calls \<^verbatim>\<open>forEach\<close> on \<^verbatim>\<open>stats.streams\<close>, which is
  \<^verbatim>\<open>undefined\<close>.
\<close>

theorem valid_snapshot_without_streams_throws:
  "\<exists>content.
     (\<exists>b c. getprop content ''blocks'' = Inr b \<and> isDefined b \<and>
            getprop content ''connections'' = Inr c \<and> isDefined c) \<and>
     getprop content ''streams'' = Inr JUndefined \<and>
     isResponseValid content = Inr True \<and>
     (\<forall>rt service st. fst (processResponse rt service content st) = Inl TypeError)"
  apply (rule exI [of _ "JObj [(''blocks'', JNum 100), (''connections'', JNum 5)]"])
  apply (simp add: isResponseValid_def isDefined_def isUndefined_def processResponse_def
      convertToJson_def parseCharts_def js_defs)
  done

subsection \<open>Numbers\<close>

lemma bits_0 [simp]: "bits 0 = 0"
  by (simp add: bits.simps)

lemma bits_double: "0 < n \<Longrightarrow> bits (2 * n) = Suc (bits n)"
  by (subst bits.simps) simp

lemma bits_mult_pow2: "0 < n \<Longrightarrow> bits (n * 2 ^ k) = bits n + k"
proof (induction k)
  case 0
  then show ?case by simp
next
  case (Suc k)
  have "bits (n * 2 ^ Suc k) = bits (2 * (n * 2 ^ k))"
    by (simp add: mult.commute mult.left_commute)
  also have "\<dots> = Suc (bits (n * 2 ^ k))"
    using Suc.prems by (intro bits_double) simp
  finally show ?case using Suc by simp
qed

lemma bits_le: "n < 2 ^ j \<Longrightarrow> bits n \<le> j"
proof (induction j arbitrary: n)
  case 0
  then show ?case by (subst bits.simps) simp
next
  case (Suc j)
  show ?case
  proof (cases "n \<le> 0")
    case True
    then show ?thesis by (subst bits.simps) simp
  next
    case False
    from Suc.prems have "n div 2 < 2 ^ j" by simp
    then have "bits (n div 2) \<le> j" by (rule Suc.IH)
    with False show ?thesis by (subst bits.simps) simp
  qed
qed

lemma round_half_even_int [simp]: "round_half_even (of_int z) = z"
  by (simp add: round_half_even_def)



lemma floor_int_mult_pow2: "\<lfloor>(of_int n :: rat) * 2 ^ e\<rfloor> = n * 2 ^ e"
proof -
  have "(of_int n :: rat) * 2 ^ e = of_int (n * 2 ^ e)" by simp
  then show ?thesis by (simp only: floor_of_int)
qed

text \<open>An integer below \<open>2^53\<close> is a double.\<close>

lemma double_of_exact:
  assumes "0 \<le> n" and "n < 2 ^ 53"
  shows "double_of (of_int n) = Some (of_int n)"
proof (cases "n = 0")
  case True
  then show ?thesis by (simp add: double_of_def round_half_even_def)
next
  case False
  with assms have pos: "0 < n" by simp
  define s where "s = bits n + min_exp - 53"
  from assms(2) have b: "bits n \<le> 53" by (rule bits_le)
  then have s': "(min_exp - s) + s = min_exp" by (simp add: s_def)
  have bk: "bits (n * 2 ^ min_exp) - 53 = s"
    using pos by (simp only: bits_mult_pow2 s_def)
  have p: "(2::rat) ^ min_exp = 2 ^ (min_exp - s) * 2 ^ s"
    by (simp only: power_add [symmetric] s')
  have q: "(of_int n :: rat) * 2 ^ min_exp / 2 ^ s = of_int (n * 2 ^ (min_exp - s))"
    by (simp add: p)
  have r: "(of_int (n * 2 ^ (min_exp - s)) :: rat) * 2 ^ s / 2 ^ min_exp = of_int n"
    by (simp add: p)
  have lt: "\<not> (2::rat) ^ 1024 \<le> of_int n"
  proof -
    from assms(2) have "(of_int n :: rat) < of_int (2 ^ 53)" by (simp only: of_int_less_iff)
    also have "\<dots> \<le> 2 ^ 1024" by simp
    finally show ?thesis by simp
  qed
  show ?thesis
    unfolding double_of_def Let_def floor_int_mult_pow2 bk q round_half_even_int r
    using lt by simp
qed

lemma to_double_int:
  assumes "\<bar>n\<bar> < 2 ^ 53"
  shows "to_double (of_int n) = JNum (of_int n)"
proof -
  have a: "\<bar>of_int n :: rat\<bar> = of_int \<bar>n\<bar>" by simp
  have "double_of (of_int \<bar>n\<bar>) = Some (of_int \<bar>n\<bar>)"
    using assms by (intro double_of_exact) simp_all
  then show ?thesis
    unfolding to_double_def a by (simp del: of_int_abs)
qed

lemma to_double_numeral [simp]:
  "numeral k < (2::int) ^ 53 \<Longrightarrow> to_double (numeral k) = JNum (numeral k)"
  "numeral k < (2::int) ^ 53 \<Longrightarrow> to_double (- numeral k) = JNum (- numeral k)"
  "to_double 0 = JNum 0"
  "to_double 1 = JNum 1"
  using to_double_int [of "numeral k"] to_double_int [of "- numeral k"]
    to_double_int [of 0] to_double_int [of 1]
  by simp_all




subsection \<open>The unconfirmed dimension\<close>




subsection \<open>The RPC client\<close>

text \<open>
  C8. A response, or a connection error, exists for a request that was sent, that is, when
  the steps before sending did not throw: \<open>post_prepare\<close> gave the prepared options. Then
  \<open>post\<close> resolves its promise exactly when a response arrived whose status code is in
  [200, 299]. A response with such a status whose body \<^verbatim>\<open>JSON.parse\<close> rejects is still
  resolved, with the parse error under \<open>body.error\<close>. A response with any other status
  rejects the promise with the response. A connection error rejects it with a value whose
  \<open>statusCode\<close> is \<open>-1\<close>.
\<close>

theorem post_resolves_iff_status_2xx:
  "((\<exists>r. post rt net options data = Resolved r) \<longleftrightarrow>
      (\<exists>options' code msg hdrs chunks.
         post_prepare rt options data = Inr options' \<and>
         net options' data = Res_end code msg hdrs chunks \<and> 200 \<le> code \<and> code \<le> 299)) \<and>
   (\<forall>options' code msg hdrs chunks err.
      post_prepare rt options data = Inr options' \<and>
      net options' data = Res_end code msg hdrs chunks \<and> 200 \<le> code \<and> code \<le> 299 \<and>
      JSON_parse rt (concat chunks) = Inl err \<longrightarrow>
      post rt net options data =
        Resolved (JObj [(''statusCode'', JNum (of_int code)),
                        (''statusMessage'', if truthy msg then msg else JStr []),
                        (''headers'', hdrs),
                        (''body'', JObj [(''error'', err)])])) \<and>
   (\<forall>options' code msg hdrs chunks.
      post_prepare rt options data = Inr options' \<and>
      net options' data = Res_end code msg hdrs chunks \<and> (code < 200 \<or> 299 < code) \<longrightarrow>
      post rt net options data =
        Rejected (JObj [(''statusCode'', JNum (of_int code)),
                        (''statusMessage'', if truthy msg then msg else JStr []),
                        (''headers'', hdrs),
                        (''body'', case JSON_parse rt (concat chunks) of
                                     Inr parsed \<Rightarrow> parsed
                                   | Inl err \<Rightarrow> JObj [(''error'', err)])])) \<and>
   (\<forall>options' e.
      post_prepare rt options data = Inr options' \<and> net options' data = Req_error e \<longrightarrow>
      post rt net options data =
        Rejected (JObj [(''statusCode'', JNum (- 1)),
                        (''statusMessage'', JStr ''Error during call''),
                        (''body'', JObj [(''error'', e)])]))"
proof (cases "post_prepare rt options data")
  case (Inl e)
  then show ?thesis by (simp add: post_def)
next
  case (Inr options')
  then show ?thesis
    by (cases "net options' data")
       (auto simp: post_def Let_def split: sum.splits)
qed

lemma example_prepare:
  "\<exists>options'. post_prepare example_runtime (rpc_options example_runtime example_service)
      (rpc_request ''getinfo'' example_service) = Inr options'"
  by (simp add: post_prepare_def sbind_def getprop_def rpc_options_def rpc_request_def)

theorem post_resolves_iff_status_2xx_witness:
  "post example_runtime (\<lambda>options data. Res_end 200 (JStr ''OK'') (JObj []) [''<html>''])
     (rpc_options example_runtime example_service) (rpc_request ''getinfo'' example_service) =
     Resolved (JObj [(''statusCode'', JNum 200), (''statusMessage'', JStr ''OK''),
                     (''headers'', JObj []),
                     (''body'', JObj [(''error'', JStr ''SyntaxError'')])]) \<and>
   post example_runtime (\<lambda>options data. Res_end 500 JUndefined (JObj []) [''{}''])
     (rpc_options example_runtime example_service) (rpc_request ''getinfo'' example_service) =
     Rejected (JObj [(''statusCode'', JNum 500), (''statusMessage'', JStr []),
                     (''headers'', JObj []), (''body'', JObj [])]) \<and>
   post example_runtime (\<lambda>options data. Req_error (JStr ''ECONNREFUSED''))
     (rpc_options example_runtime example_service) (rpc_request ''getinfo'' example_service) =
     Rejected (JObj [(''statusCode'', JNum (- 1)),
                     (''statusMessage'', JStr ''Error during call''),
                     (''body'', JObj [(''error'', JStr ''ECONNREFUSED'')])])"
proof -
  let ?o = "rpc_options example_runtime example_service"
  let ?d = "rpc_request ''getinfo'' example_service"
  from example_prepare obtain options' where
    p: "post_prepare example_runtime ?o ?d = Inr options'" ..
  have q: "JSON_parse example_runtime (concat [''<html>'']) = Inl (JStr ''SyntaxError'')"
    and q': "JSON_parse example_runtime (concat [''{}'']) = Inr (JObj [])"
    by (simp_all add: example_runtime_def example_texts_def)
  have a: "post example_runtime
      (\<lambda>options data. Res_end 200 (JStr ''OK'') (JObj []) [''<html>'']) ?o ?d =
     Resolved (JObj [(''statusCode'', JNum 200), (''statusMessage'', JStr ''OK''),
                     (''headers'', JObj []),
                     (''body'', JObj [(''error'', JStr ''SyntaxError'')])])"
    using post_resolves_iff_status_2xx
      [of example_runtime "\<lambda>options data. Res_end 200 (JStr ''OK'') (JObj []) [''<html>'']"
        ?o ?d] p q
    by simp
  have b: "post example_runtime
      (\<lambda>options data. Res_end 500 JUndefined (JObj []) [''{}'']) ?o ?d =
     Rejected (JObj [(''statusCode'', JNum 500), (''statusMessage'', JStr []),
                     (''headers'', JObj []), (''body'', JObj [])])"
    using post_resolves_iff_status_2xx
      [of example_runtime "\<lambda>options data. Res_end 500 JUndefined (JObj []) [''{}'']" ?o ?d]
      p q'
    by simp
  have c: "post example_runtime (\<lambda>options data. Req_error (JStr ''ECONNREFUSED'')) ?o ?d =
     Rejected (JObj [(''statusCode'', JNum (- 1)),
                     (''statusMessage'', JStr ''Error during call''),
                     (''body'', JObj [(''error'', JStr ''ECONNREFUSED'')])])"
    using post_resolves_iff_status_2xx
      [of example_runtime "\<lambda>options data. Req_error (JStr ''ECONNREFUSED'')" ?o ?d] p
    by simp
  from a b c show ?thesis by (intro conjI)
qed

text \<open>Before sending: \<open>post\<close> on options that are \<^verbatim>\<open>null\<close> or a primitive value, or on
  data that is \<^verbatim>\<open>undefined\<close>, rejects with a TypeError and the transport is not asked.
  \<open>process\<close> hands the one options object to its three calls, and \<open>post\<close> leaves its
  writes in it; preparing options that an earlier call prepared gives what preparing the
  original ones gives (\<open>post_prepare_again\<close>, below), for the writes are to the same
  keys.\<close>

lemma post_prepare_undefined: "post_prepare rt options JUndefined = Inl TypeError"
proof (cases "getprop options ''headers''")
  case (Inl e)
  then show ?thesis
    by (cases e) (auto simp: post_prepare_def sbind_def getprop_def split: if_splits)
next
  case (Inr h)
  show ?thesis
  proof (cases "setprop options ''headers'' (if truthy h then h else JObj [])")
    case (Inl e)
    then have "e = TypeError"
      by (cases options) simp_all
    with Inl Inr show ?thesis
      by (simp add: post_prepare_def sbind_def Let_def)
  next
    case options1: (Inr options1)
    show ?thesis
    proof (cases "setprop (if truthy h then h else JObj []) ''Content-Type''
                    (JStr ''application/json'')")
      case (Inl e)
      then have "e = TypeError"
        by (cases "if truthy h then h else JObj []") simp_all
      with Inl Inr options1 show ?thesis
        by (simp add: post_prepare_def sbind_def Let_def)
    next
      case headers1: (Inr headers1)
      with Inr options1 show ?thesis
        by (simp add: post_prepare_def sbind_def Let_def)
    qed
  qed
qed

lemma post_before_sending:
  "post rt net JNull data = Failed TypeError"
  "post rt net (JNum 5) data = Failed TypeError"
  "post rt net options JUndefined = Failed TypeError"
  by (simp_all add: post_def post_prepare_undefined)
     (simp_all add: post_prepare_def sbind_def getprop_def)

lemma update_existing_swap:
  assumes "k \<noteq> k'" and "k \<in> fst ` set al"
  shows "AList.update k v (AList.update k' v' al) = AList.update k' v' (AList.update k v al)"
  using assms by (induction al) auto

lemma update_twice: "AList.update k v (AList.update k v' al) = AList.update k v al"
  by (induction al) auto

lemma update_key: "k \<in> fst ` set (AList.update k v al)"
  by (induction al) auto

lemma setprop_twice:
  assumes "setprop x k v = Inr y"
  shows "setprop y k v' = setprop x k v'"
  using assms by (cases x) (auto simp: update_twice)

lemma own_prop_update: "own_prop (JObj (AList.update k v al)) k = v"
  by (simp add: update_conv')

lemma post_prepare_again:
  assumes "post_prepare rt options d = Inr options1"
  shows "post_prepare rt options1 d' = post_prepare rt options d'"
proof (cases "d' = JUndefined")
  case True
  then show ?thesis by (simp add: post_prepare_undefined)
next
  case d': False
  from assms have d: "d \<noteq> JUndefined"
    using post_prepare_undefined [of rt options] by auto
  show ?thesis
  proof (cases options)
    case (JArr xs)
    with assms d d' show ?thesis
      by (auto simp: post_prepare_def sbind_def getprop_def Let_def)
  next
    case (JObj kvs)
    define h where "h = own_prop options ''headers''"
    define n where "n = JNum (of_nat (length (JSON_stringify rt d)))"
    define n' where "n' = JNum (of_nat (length (JSON_stringify rt d')))"
    show ?thesis
    proof (cases "truthy h")
      case False
      with assms d JObj have o1: "options1 =
        JObj (AList.update ''method'' (JStr ''POST'')
          (AList.update ''headers''
            (JObj [(''Content-Type'', JStr ''application/json''), (''Content-Length'', n)]) kvs))"
        by (auto simp: post_prepare_def sbind_def getprop_def Let_def h_def n_def update_twice)
      have "''headers'' \<noteq> ''method''" by simp
      note sw = update_existing_swap [OF this update_key]
      show ?thesis
        using False d' JObj
        unfolding o1
        by (simp add: post_prepare_def sbind_def getprop_def Let_def h_def update_twice sw
            update_conv')
    next
      case True
      have ne: "''headers'' \<noteq> ''method''" "''Content-Type'' \<noteq> ''Content-Length''"
        by simp_all
      note sw = update_existing_swap [OF ne(1) update_key]
        update_existing_swap [OF ne(2) update_key]
      show ?thesis
      proof (cases h)
        case hk: (JObj hk)
        with True assms d JObj have o1: "options1 =
          JObj (AList.update ''method'' (JStr ''POST'')
            (AList.update ''headers''
              (JObj (AList.update ''Content-Length'' n
                (AList.update ''Content-Type'' (JStr ''application/json'') hk))) kvs))"
          by (auto simp: post_prepare_def sbind_def getprop_def Let_def h_def n_def
              update_twice)
        show ?thesis
          using True d' JObj hk
          unfolding o1
          by (simp add: post_prepare_def sbind_def getprop_def Let_def h_def update_twice sw
              update_conv')
      next
        case a: (JArr a)
        with True assms d JObj have o1: "options1 =
          JObj (AList.update ''method'' (JStr ''POST'') (AList.update ''headers'' (JArr a) kvs))"
          by (auto simp: post_prepare_def sbind_def getprop_def Let_def h_def update_twice)
        show ?thesis
          using True d' JObj a
          unfolding o1
          by (simp add: post_prepare_def sbind_def getprop_def Let_def h_def update_twice sw
              update_conv')
      qed (use True assms d JObj in
           \<open>auto simp: post_prepare_def sbind_def getprop_def Let_def h_def\<close>)
    qed
  qed (use assms in \<open>auto simp: post_prepare_def sbind_def getprop_def\<close>)
qed

subsection \<open>The collector\<close>

lemma then_getinfo_data: "isl (then_getinfo d r) = isl (then_getinfo [] r)"
  by (auto simp: then_getinfo_def sbind_def split: sum.splits)

lemma then_getmempoolinfo_data:
  "isl (then_getmempoolinfo d r) = isl (then_getmempoolinfo [] r)"
  by (auto simp: then_getmempoolinfo_def sbind_def split: sum.splits)

lemma then_liststreams_data: "isl (then_liststreams d r) = isl (then_liststreams [] r)"
  by (auto simp: then_liststreams_def sbind_def split: sum.splits)

lemma rpc_step_None:
  assumes "\<And>r. isl (handler d r) = isl (handler [] r)"
  shows "(rpc_step rt net (rpc_options rt service) (rpc_request method service) handler d = None)
         = rpc_fails rt net service method handler"
proof (cases "post rt net (rpc_options rt service) (rpc_request method service)")
  case (Resolved r)
  with assms [of r] show ?thesis
    by (cases "handler d r"; cases "handler [] r") (auto simp: rpc_step_def rpc_fails_def)
next
  case (Rejected r)
  then show ?thesis by (simp add: rpc_step_def rpc_fails_def)
next
  case (Failed e)
  then show ?thesis by (simp add: rpc_step_def rpc_fails_def)
qed

lemmas rpc_step_fails =
  rpc_step_None [where handler = then_getinfo, OF then_getinfo_data]
  rpc_step_None [where handler = then_getmempoolinfo, OF then_getmempoolinfo_data]
  rpc_step_None [where handler = then_liststreams, OF then_liststreams_data]

text \<open>
  C2. When any of the three calls fails (its promise is rejected or its handler throws),
  the callback is called once, with \<^verbatim>\<open>null\<close>: for every callback the final state is the
  one \<open>callback(null)\<close> leaves, and the recording callback has seen \<^verbatim>\<open>null\<close> only. The
  chain stops at the failing call: when \<open>getinfo\<close> fails it is the only request posted, and
  when \<open>getinfo\<close> succeeds and \<open>getmempoolinfo\<close> fails, \<open>liststreams\<close> is not posted and
  the data written from \<open>getinfo\<close> never reaches the callback.
\<close>

theorem failed_call_passes_null:
  "(rpc_fails rt net service ''getinfo'' then_getinfo \<or>
    rpc_fails rt net service ''getmempoolinfo'' then_getmempoolinfo \<or>
    rpc_fails rt net service ''liststreams'' then_liststreams \<longrightarrow>
      snd (process rt net service callback s) = snd (callback JNull s) \<and>
      snd (process rt net service record_callback []) = [JNull]) \<and>
   (rpc_fails rt net service ''getinfo'' then_getinfo \<longrightarrow>
      fst (process rt net service callback s) = [rpc_request ''getinfo'' service]) \<and>
   (\<not> rpc_fails rt net service ''getinfo'' then_getinfo \<and>
    rpc_fails rt net service ''getmempoolinfo'' then_getmempoolinfo \<longrightarrow>
      process rt net service callback s =
        ([rpc_request ''getinfo'' service, rpc_request ''getmempoolinfo'' service],
         snd (callback JNull s)))"
proof -
  let ?s1 = "rpc_step rt net (rpc_options rt service) (rpc_request ''getinfo'' service)
               then_getinfo []"
  show ?thesis
  proof (cases ?s1)
    case None
    then have f: "rpc_fails rt net service ''getinfo'' then_getinfo"
      by (simp add: rpc_step_fails)
    from None show ?thesis
      by (simp add: process_def f record_callback_def)
  next
    case (Some d1)
    then have f1: "\<not> rpc_fails rt net service ''getinfo'' then_getinfo"
      using rpc_step_fails(1) [of rt net service "''getinfo''" "[]"] by simp
    let ?s2 = "rpc_step rt net (rpc_options rt service)
                 (rpc_request ''getmempoolinfo'' service) then_getmempoolinfo d1"
    show ?thesis
    proof (cases ?s2)
      case None
      then have f: "rpc_fails rt net service ''getmempoolinfo'' then_getmempoolinfo"
        by (simp add: rpc_step_fails)
      from None Some show ?thesis
        by (simp add: process_def f f1 record_callback_def)
    next
      case (Some d2)
      then have f2: "\<not> rpc_fails rt net service ''getmempoolinfo'' then_getmempoolinfo"
        using rpc_step_fails(2) [of rt net service "''getmempoolinfo''" d1] by simp
      let ?s3 = "rpc_step rt net (rpc_options rt service)
                   (rpc_request ''liststreams'' service) then_liststreams d2"
      show ?thesis
      proof (cases ?s3)
        case None
        then have f: "rpc_fails rt net service ''liststreams'' then_liststreams"
          by (simp add: rpc_step_fails)
        from None Some \<open>?s1 = Some d1\<close> show ?thesis
          by (simp add: process_def f f1 f2 record_callback_def)
      next
        case (Some d3)
        then have f3: "\<not> rpc_fails rt net service ''liststreams'' then_liststreams"
          using rpc_step_fails(3) [of rt net service "''liststreams''" d2] by simp
        from f1 f2 f3 show ?thesis by simp
      qed
    qed
  qed
qed

lemma example_net_getinfo:
  "\<not> rpc_fails example_runtime (example_net ''getmempoolinfo'') example_service
       ''getinfo'' then_getinfo"
  by (simp add: rpc_fails_def post_def post_prepare_def rpc_options_def rpc_request_def
      example_net_def example_service_def example_runtime_def example_texts_def
      then_getinfo_def sbind_def getprop_def)

lemma example_net_getmempoolinfo:
  "rpc_fails example_runtime (example_net ''getmempoolinfo'') example_service
     ''getmempoolinfo'' then_getmempoolinfo"
  by (simp add: rpc_fails_def post_def post_prepare_def rpc_options_def rpc_request_def
      example_net_def example_service_def sbind_def getprop_def)

lemma example_net_getinfo_fails:
  "rpc_fails example_runtime (example_net ''getinfo'') example_service ''getinfo'' then_getinfo"
  by (simp add: rpc_fails_def post_def post_prepare_def rpc_options_def rpc_request_def
      example_net_def example_service_def sbind_def getprop_def)

theorem failed_call_passes_null_witness:
  "\<not> rpc_fails example_runtime (example_net ''getmempoolinfo'') example_service
       ''getinfo'' then_getinfo \<and>
   rpc_fails example_runtime (example_net ''getmempoolinfo'') example_service
     ''getmempoolinfo'' then_getmempoolinfo \<and>
   process example_runtime (example_net ''getmempoolinfo'') example_service record_callback [] =
     ([rpc_request ''getinfo'' example_service,
       rpc_request ''getmempoolinfo'' example_service], [JNull]) \<and>
   rpc_fails example_runtime (example_net ''getinfo'') example_service ''getinfo'' then_getinfo \<and>
   process example_runtime (example_net ''getinfo'') example_service record_callback [] =
     ([rpc_request ''getinfo'' example_service], [JNull])"
proof -
  have a: "process example_runtime (example_net ''getmempoolinfo'') example_service
             record_callback [] =
           ([rpc_request ''getinfo'' example_service,
             rpc_request ''getmempoolinfo'' example_service], [JNull])"
    using failed_call_passes_null
      [of example_runtime "example_net ''getmempoolinfo''" example_service record_callback "[]"]
      example_net_getinfo example_net_getmempoolinfo
    by (simp add: record_callback_def)
  have b: "process example_runtime (example_net ''getinfo'') example_service
             record_callback [] =
           ([rpc_request ''getinfo'' example_service], [JNull])"
    using failed_call_passes_null
      [of example_runtime "example_net ''getinfo''" example_service record_callback "[]"]
      example_net_getinfo_fails
    by (simp add: prod_eq_iff record_callback_def)
  from a b example_net_getinfo example_net_getmempoolinfo example_net_getinfo_fails
  show ?thesis by blast
qed

subsection \<open>Chart ids\<close>

lemmas id_defs = getChartId_def streamKeysChartId_def streamItemsChartId_def
  blocksSizeChartId_def blocksMemoryChartId_def blocksChartId_def connectionsChartId_def

lemma items_id_inj:
  "(streamItemsChartId rt service m = streamItemsChartId rt service n) =
   (js_String rt m = js_String rt n)"
  by (simp add: id_defs)

lemma keys_id_inj:
  "(streamKeysChartId rt service m = streamKeysChartId rt service n) =
   (js_String rt m = js_String rt n)"
  by (simp add: id_defs)

lemma items_id_not_keys_id:
  "streamItemsChartId rt service m \<noteq> streamKeysChartId rt service n"
proof
  assume "streamItemsChartId rt service m = streamKeysChartId rt service n"
  then have "js_String rt m @ ''.items'' = js_String rt n @ ''.key''"
    by (simp add: id_defs)
  then have "last (js_String rt m @ ''.items'') = last (js_String rt n @ ''.key'')"
    by (rule arg_cong)
  then show False by simp
qed

lemma stream_ids_not_node_ids:
  "set (stream_chart_ids rt service n) \<inter> set (node_chart_ids rt service) = {}"
  by (simp add: stream_chart_ids_def node_chart_ids_def id_defs)

lemma distinct_node_ids: "distinct (node_chart_ids rt service)"
  by (simp add: node_chart_ids_def id_defs)

lemma stream_ids_disjoint:
  "js_String rt m \<noteq> js_String rt n \<Longrightarrow>
   set (stream_chart_ids rt service m) \<inter> set (stream_chart_ids rt service n) = {}"
  using items_id_not_keys_id [of rt service m n] items_id_not_keys_id [of rt service n m]
  by (auto simp: stream_chart_ids_def items_id_inj keys_id_inj)

lemma distinct_stream_ids:
  "distinct (map (js_String rt) names) \<Longrightarrow>
   distinct (concat (map (stream_chart_ids rt service) names))"
proof (induction names)
  case Nil
  then show ?case by simp
next
  case (Cons n names)
  have "set (stream_chart_ids rt service n) \<inter> set (stream_chart_ids rt service m) = {}"
    if "m \<in> set names" for m
    using that Cons.prems by (intro stream_ids_disjoint) auto
  moreover have "distinct (stream_chart_ids rt service n)"
    using items_id_not_keys_id [of rt service n n] by (simp add: stream_chart_ids_def)
  ultimately show ?case
    using Cons by auto
qed

text \<open>
  C9. Every chart id of a node is the node's name, a dot and a suffix. For stream names
  that are pairwise distinct (as strings), the ids of the node-level charts (blocks size,
  blocks memory, blocks count, connections; the code has these four) and of the items
  chart and the keys chart of every stream are pairwise distinct: no two streams share an
  id, and no stream chart has the id of a node-level chart.
\<close>

theorem chart_ids_distinct:
  "(\<forall>id' \<in> set (chart_ids rt service names).
      \<exists>suffix. id' = js_String rt (service_name service) @ ''.'' @ suffix) \<and>
   (distinct (map (js_String rt) names) \<longrightarrow> distinct (chart_ids rt service names))"
proof (intro conjI impI)
  show "\<forall>id' \<in> set (chart_ids rt service names).
      \<exists>suffix. id' = js_String rt (service_name service) @ ''.'' @ suffix"
    by (auto simp: chart_ids_def node_chart_ids_def stream_chart_ids_def id_defs)
next
  assume d: "distinct (map (js_String rt) names)"
  have "set (node_chart_ids rt service) \<inter>
        set (concat (map (stream_chart_ids rt service) names)) = {}"
    using stream_ids_not_node_ids [of rt service] by auto
  with d show "distinct (chart_ids rt service names)"
    by (simp add: chart_ids_def distinct_node_ids distinct_stream_ids)
qed

theorem chart_ids_distinct_witness:
  "distinct (map (js_String example_runtime) [JStr ''s1'', JStr ''s2'']) \<and>
   chart_ids example_runtime example_service [JStr ''s1'', JStr ''s2''] =
     [''n1.blocks.size'', ''n1.blocks.memory'', ''n1.blocks.count'', ''n1.connections.count'',
      ''n1.stream.s1.items'', ''n1.stream.s1.key'',
      ''n1.stream.s2.items'', ''n1.stream.s2.key''] \<and>
   distinct (chart_ids example_runtime example_service [JStr ''s1'', JStr ''s2''])"
proof -
  have a: "distinct (map (js_String example_runtime) [JStr ''s1'', JStr ''s2''])"
    by simp
  have b: "chart_ids example_runtime example_service [JStr ''s1'', JStr ''s2''] =
     [''n1.blocks.size'', ''n1.blocks.memory'', ''n1.blocks.count'', ''n1.connections.count'',
      ''n1.stream.s1.items'', ''n1.stream.s1.key'',
      ''n1.stream.s2.items'', ''n1.stream.s2.key'']"
    by (simp add: chart_ids_def node_chart_ids_def stream_chart_ids_def id_defs
        example_service_def)
  from chart_ids_distinct [of example_runtime example_service "[JStr ''s1'', JStr ''s2'']"] a
  have "distinct (chart_ids example_runtime example_service [JStr ''s1'', JStr ''s2''])"
    by blast
  with a b show ?thesis by blast
qed

subsection \<open>The chart registry\<close>

lemma registered_append [simp]: "registered (xs @ ys) = registered xs @ registered ys"
  by (simp add: registered_def)

lemma registered_simps [simp]:
  "registered [] = []"
  "registered (Call_chart i c # xs) = i # registered xs"
  "registered (Call_commit # xs) = registered xs"
  "registered (Call_begin c # xs) = registered xs"
  "registered (Call_set n v # xs) = registered xs"
  "registered (Call_end # xs) = registered xs"
  by (simp_all add: registered_def)

lemma registered_emit [simp]: "registered (emit c) = []"
  by (simp add: emit_def registered_def)

lemma registered_concat_emit [simp]: "registered (concat (map emit cs)) = []"
  by (induction cs) simp_all

lemma getters_get_or_create:
  "getStreamKeysChart rt service n = get_or_create service (streamKeysChartId rt service n)
     (\<lambda>st. \<lparr>chart_id = streamKeysChartId rt service n, chart_name = [],
             chart_title = js_String rt (service_name service) @ '' stream '' @
                           js_String rt n @ '' keys'',
             chart_units = ''keys'',
             chart_family = ''stream '' @ js_String rt n,
             chart_context = ''multichain'', chart_type = area,
             chart_priority = base_priority st + 1,
             chart_update_every = service_update_every service,
             chart_dimensions = build_dim dimensions_stream_keys\<rparr>)"
  "getStreamItemsChart rt service n = get_or_create service (streamItemsChartId rt service n)
     (\<lambda>st. \<lparr>chart_id = streamItemsChartId rt service n, chart_name = [],
             chart_title = js_String rt (service_name service) @ '' stream '' @
                           js_String rt n @ '' items'',
             chart_units = ''items'',
             chart_family = ''stream '' @ js_String rt n,
             chart_context = ''multichain'', chart_type = area,
             chart_priority = base_priority st + 1,
             chart_update_every = service_update_every service,
             chart_dimensions = build_dim dimensions_stream_items\<rparr>)"
  "getBlocksSizeChart rt service = get_or_create service (blocksSizeChartId rt service)
     (\<lambda>st. \<lparr>chart_id = blocksSizeChartId rt service, chart_name = [],
             chart_title = js_String rt (service_name service) @ '' blocks size'',
             chart_units = ''transactions'', chart_family = ''blocks'',
             chart_context = ''multichain'', chart_type = area,
             chart_priority = base_priority st + 1,
             chart_update_every = service_update_every service,
             chart_dimensions = build_dim dimensions_blocksSize\<rparr>)"
  "getBlocksMemoryChart rt service = get_or_create service (blocksMemoryChartId rt service)
     (\<lambda>st. \<lparr>chart_id = blocksMemoryChartId rt service, chart_name = [],
             chart_title = js_String rt (service_name service) @ '' blocks memory'',
             chart_units = ''bytes'', chart_family = ''blocks'',
             chart_context = ''multichain'', chart_type = area,
             chart_priority = base_priority st + 1,
             chart_update_every = service_update_every service,
             chart_dimensions = build_dim dimensions_blocksMemory\<rparr>)"
  "getBlocksChart rt service = get_or_create service (blocksChartId rt service)
     (\<lambda>st. \<lparr>chart_id = blocksChartId rt service, chart_name = [],
             chart_title = js_String rt (service_name service) @ '' blocks'',
             chart_units = ''blocks'', chart_family = ''blocks'',
             chart_context = ''multichain'', chart_type = area,
             chart_priority = base_priority st + 1,
             chart_update_every = service_update_every service,
             chart_dimensions = build_dim dimensions_blocks\<rparr>)"
  "getConnectionsChart rt service = get_or_create service (connectionsChartId rt service)
     (\<lambda>st. \<lparr>chart_id = connectionsChartId rt service, chart_name = [],
             chart_title = js_String rt (service_name service) @ '' connections'',
             chart_units = ''connections'', chart_family = ''connections'',
             chart_context = ''multichain'', chart_type = line,
             chart_priority = base_priority st + 1,
             chart_update_every = service_update_every service,
             chart_dimensions = build_dim dimensions_connections\<rparr>)"
  by (rule ext, simp only: getStreamKeysChart_def getStreamItemsChart_def getBlocksSizeChart_def
      getBlocksMemoryChart_def getBlocksChart_def getConnectionsChart_def
      get_or_create_def Let_def)+


lemma get_or_create_twice: "called_twice (get_or_create service i mk) st"
  by (auto simp: called_twice_def get_or_create_def register_chart_def Let_def
      split: option.splits)

lemma get_or_create_registry_ok:
  "registry_ok st \<Longrightarrow> registry_ok (snd (get_or_create service i mk st))"
  by (auto simp: registry_ok_def get_or_create_def register_chart_def Let_def
      split: option.splits)


lemma preserves_bind:
  assumes "preserves P m" and "\<And>x. preserves P (f x)"
  shows "preserves P (bind m f)"
  unfolding preserves_def
proof (intro allI impI)
  fix st assume p: "P st"
  with assms(1) have p1: "P (snd (m st))" by (simp add: preserves_def)
  show "P (snd (bind m f st))"
  proof (cases "m st")
    case (Pair r st1)
    with p1 have "P st1" by simp
    with assms(2) have "\<And>x. P (snd (f x st1))" by (simp add: preserves_def)
    with Pair \<open>P st1\<close> show ?thesis by (cases r) (simp_all add: bind_def)
  qed
qed

lemma preserves_pure [simp]:
  "preserves P (ret x)" "preserves P (throw e)" "preserves P (lift r)"
  by (simp_all add: preserves_def ret_def throw_def lift_def)

lemma preserves_if:
  "preserves P m \<Longrightarrow> preserves P m' \<Longrightarrow> preserves P (if b then m else m')"
  by simp

lemma snd_always: "snd (always g st) = snd (g st)"
  by (cases "g st") (simp add: always_def)

lemma preserves_always:
  "(\<And>st. P st \<Longrightarrow> P (snd (g st))) \<Longrightarrow> preserves P (always g)"
  by (simp add: preserves_def snd_always)

lemma getters_preserve:
  assumes "getter_ok P"
  shows "preserves P (always (getStreamKeysChart rt service n))"
    and "preserves P (always (getStreamItemsChart rt service n))"
    and "preserves P (always (getBlocksSizeChart rt service))"
    and "preserves P (always (getBlocksMemoryChart rt service))"
    and "preserves P (always (getBlocksChart rt service))"
    and "preserves P (always (getConnectionsChart rt service))"
  using assms
  by (simp_all add: getters_get_or_create getter_ok_def preserves_always)

lemma parse_preserve:
  assumes "getter_ok P"
  shows "preserves P (parseStreamItemsChart rt service s)"
    and "preserves P (parseStreamKeysChart rt service s)"
    and "preserves P (parseBlocksSizeChart rt service stats)"
    and "preserves P (parseBlocksMemoryChart rt service stats)"
    and "preserves P (parseBlocksChart rt service stats)"
    and "preserves P (parseConnectionsChart rt service stats)"
  unfolding parseStreamItemsChart_def parseStreamKeysChart_def parseBlocksSizeChart_def
    parseBlocksMemoryChart_def parseBlocksChart_def parseConnectionsChart_def
  by (intro preserves_bind preserves_pure preserves_if getters_preserve assms)+

lemma parse_streams_preserve:
  assumes "getter_ok P"
  shows "preserves P (parse_streams rt service ss cs)"
proof (induction ss arbitrary: cs)
  case Nil
  show ?case by simp
next
  case (Cons s ss)
  show ?case
    unfolding parse_streams.simps
    by (intro preserves_bind preserves_pure preserves_if parse_preserve assms Cons)
qed

lemma parseCharts_preserve:
  assumes "getter_ok P"
    and "\<And>st. P st \<Longrightarrow> P (st\<lparr>parseCharts_calls := Suc (parseCharts_calls st)\<rparr>)"
  shows "preserves P (parseCharts rt service stats)"
proof -
  have a: "preserves P (\<lambda>st. (Inr (), st\<lparr>parseCharts_calls := Suc (parseCharts_calls st)\<rparr>))"
    using assms(2) by (simp add: preserves_def)
  have b: "preserves P (case streams of JArr ss \<Rightarrow> parse_streams rt service ss []
                        | _ \<Rightarrow> throw TypeError)" for streams
    by (cases streams) (simp_all add: parse_streams_preserve assms(1))
  show ?thesis
    unfolding parseCharts_def
    by (intro preserves_bind preserves_pure a b parse_preserve assms(1))
qed

lemma processResponse_preserve:
  assumes "getter_ok P"
    and "\<And>st. P st \<Longrightarrow> P (st\<lparr>parseCharts_calls := Suc (parseCharts_calls st)\<rparr>)"
    and "\<And>st. P st \<Longrightarrow> P (st\<lparr>sink := sink st @ [Call_commit]\<rparr>)"
    and "\<And>st cs. P st \<Longrightarrow> P (st\<lparr>sink := sink st @ concat (map emit cs)\<rparr>)"
  shows "preserves P (processResponse rt service content)"
proof -
  have a: "preserves P (\<lambda>st. (Inr (), st\<lparr>sink := sink st @ [Call_commit]\<rparr>))"
    using assms(3) by (simp add: preserves_def)
  have b: "preserves P (\<lambda>st. (Inr (), st\<lparr>sink := sink st @ concat (map emit cs)\<rparr>))" for cs
    using assms(4) by (simp add: preserves_def)
  show ?thesis
    unfolding processResponse_def
    by (intro preserves_bind preserves_pure preserves_if a b parseCharts_preserve assms(1,2))
qed

lemma registry_ok_getter: "getter_ok registry_ok"
  by (simp add: getter_ok_def get_or_create_registry_ok)

lemma registry_ok_cycle:
  "registry_ok st \<Longrightarrow> registry_ok (snd (processResponse rt service content st))"
proof -
  have "preserves registry_ok (processResponse rt service content)"
    by (rule processResponse_preserve [OF registry_ok_getter])
       (simp_all add: registry_ok_def)
  then show "registry_ok st \<Longrightarrow> registry_ok (snd (processResponse rt service content st))"
    by (simp add: preserves_def)
qed

lemma registry_ok_cycles:
  "registry_ok st \<Longrightarrow> registry_ok (run_cycles rt cycles st)"
proof (induction cycles arbitrary: st)
  case Nil
  then show ?case by simp
next
  case (Cons c cycles)
  obtain service content where c: "c = (service, content)" by (cases c)
  from Cons.prems have "registry_ok (snd (processResponse rt service content st))"
    by (rule registry_ok_cycle)
  then show ?case unfolding c run_cycles.simps by (rule Cons.IH)
qed

text \<open>
  C5. Each of the six chart functions, called twice in a row with the same arguments in any
  state, returns the same chart both times, and the second call changes nothing: it makes
  no call on the sink. Over any sequence of collection cycles from the fresh module, for
  any services and contents, no chart id is registered with the sink more than once.
\<close>

theorem chart_functions_idempotent:
  "called_twice (getStreamKeysChart rt service streamName) st \<and>
   called_twice (getStreamItemsChart rt service streamName) st \<and>
   called_twice (getBlocksSizeChart rt service) st \<and>
   called_twice (getBlocksMemoryChart rt service) st \<and>
   called_twice (getBlocksChart rt service) st \<and>
   called_twice (getConnectionsChart rt service) st \<and>
   distinct (registered (sink (run_cycles rt cycles multichain)))"
proof -
  have "registry_ok multichain"
    by (simp add: registry_ok_def multichain_def)
  then have "registry_ok (run_cycles rt cycles multichain)"
    by (rule registry_ok_cycles)
  then show ?thesis
    by (simp add: getters_get_or_create get_or_create_twice registry_ok_def)
qed

theorem chart_functions_idempotent_witness:
  "registered (sink (run_cycles example_runtime
     [(example_service, example_snapshot), (example_service, example_snapshot)] multichain)) =
     [''n1.stream.s1.items'', ''n1.stream.s1.key'', ''n1.blocks.size'', ''n1.blocks.memory'',
      ''n1.blocks.count'', ''n1.connections.count''] \<and>
   distinct (registered (sink (run_cycles example_runtime
     [(example_service, example_snapshot), (example_service, example_snapshot)] multichain)))"
proof -
  have "registered (sink (run_cycles example_runtime
     [(example_service, example_snapshot), (example_service, example_snapshot)] multichain)) =
     [''n1.stream.s1.items'', ''n1.stream.s1.key'', ''n1.blocks.size'', ''n1.blocks.memory'',
      ''n1.blocks.count'', ''n1.connections.count'']"
    by (simp add: processResponse_def convertToJson_def isResponseValid_def parseCharts_def
        parseStreamItemsChart_def parseStreamKeysChart_def parseBlocksSizeChart_def
        parseBlocksMemoryChart_def parseBlocksChart_def parseConnectionsChart_def
        getStreamKeysChart_def getStreamItemsChart_def getBlocksSizeChart_def
        getBlocksMemoryChart_def getBlocksChart_def getConnectionsChart_def register_chart_def
        id_defs js_defs isDefined_def isUndefined_def example_snapshot_def example_stream_def
        example_service_def multichain_def Let_def)
  moreover from chart_functions_idempotent
    [of example_runtime example_service "JStr ''s1''" multichain
      "[(example_service, example_snapshot), (example_service, example_snapshot)]"]
  have "distinct (registered (sink (run_cycles example_runtime
     [(example_service, example_snapshot), (example_service, example_snapshot)] multichain)))"
    by (elim conjE)
  ultimately show ?thesis by (intro conjI)
qed

subsection \<open>The stats mapper\<close>

















end
